theory Spec2Isabelle
  imports Complex_Main
begin

section \<open>Numbers and missing values\<close>

text \<open>
  The program is the function \<^verbatim>\<open>deriveMetrics(raw, cropType)\<close> of the farm-mapping
  view. A JavaScript number is modelled as a real number. Outside the irrigation block
  every comparison, sum and product of the source is taken exactly, without rounding
  error; the irrigation block is computed in doubles (see below). The input comes from
  \<^verbatim>\<open>Response.json()\<close>, which cannot deliver NaN; NaN and the infinities are not part
  of the model. A value that may be
  \<^verbatim>\<open>undefined\<close> or \<^verbatim>\<open>null\<close> is an \<open>option\<close>.
\<close>

type_synonym num = real

datatype js_error = TypeError

text \<open>\<^verbatim>\<open>Math.round\<close>: the nearest integer, a tie going towards plus infinity.\<close>

definition js_round :: "num \<Rightarrow> num" where
  "js_round x = of_int \<lfloor>x + 1 / 2\<rfloor>"

text \<open>
  \<^verbatim>\<open>x.toFixed(f)\<close>, read back as the number its decimal string denotes: the sign is
  split off first and the magnitude is rounded to \<open>f\<close> places, a tie going up.
\<close>

definition toFixed :: "nat \<Rightarrow> num \<Rightarrow> num" where
  "toFixed f x =
     (if x < 0 then - (of_int \<lfloor>(- x) * 10 ^ f + 1 / 2\<rfloor> / 10 ^ f)
      else of_int \<lfloor>x * 10 ^ f + 1 / 2\<rfloor> / 10 ^ f)"

text \<open>\<^verbatim>\<open>a ?? d\<close>\<close>

definition nullish :: "'a option \<Rightarrow> 'a \<Rightarrow> 'a" where
  "nullish a d = (case a of None \<Rightarrow> d | Some v \<Rightarrow> v)"

text \<open>\<^verbatim>\<open>arr?.[i]\<close> on an array that may be absent and whose entries may be null.\<close>

definition idx :: "num option list option \<Rightarrow> nat \<Rightarrow> num option" where
  "idx arr i =
     (case arr of None \<Rightarrow> None
      | Some xs \<Rightarrow> (if i < length xs then xs ! i else None))"

text \<open>
  A null that reaches an arithmetic operator or a comparison is converted to the
  number 0; the same function is \<^verbatim>\<open>b || 0\<close> on a number or null.
\<close>

definition to_num :: "num option \<Rightarrow> num" where
  "to_num a = (case a of None \<Rightarrow> 0 | Some v \<Rightarrow> v)"

section \<open>Double-precision arithmetic\<close>

text \<open>
  Where a threshold is tested on a computed quantity, the rounding of each operation
  decides the branch, and the operation is modelled as the program performs it: the
  exact result rounded to the nearest double (53 significant bits, a tie going to the
  even significand, gradual underflow below 2 to the power -1022). A result beyond the
  largest double, which the program holds as Infinity, is outside the model.

  \<open>ilog2 x\<close> is the binary exponent of a positive \<open>x\<close>, found by halving or doubling
  and kept within the exponent range of a double.
\<close>

definition pow2 :: "int \<Rightarrow> num" where
  "pow2 e = (if 0 \<le> e then 2 ^ nat e else 1 / 2 ^ nat (- e))"

fun ilog2_up :: "nat \<Rightarrow> num \<Rightarrow> int \<Rightarrow> int" where
  "ilog2_up 0 x e = e"
| "ilog2_up (Suc n) x e = (if x < 2 then e else ilog2_up n (x / 2) (e + 1))"

fun ilog2_down :: "nat \<Rightarrow> num \<Rightarrow> int \<Rightarrow> int" where
  "ilog2_down 0 x e = e"
| "ilog2_down (Suc n) x e = (if 1 \<le> x then e else ilog2_down n (x * 2) (e - 1))"

definition ilog2 :: "num \<Rightarrow> int" where
  "ilog2 x = (if 1 \<le> x then ilog2_up 1023 x 0 else ilog2_down 1022 x 0)"

definition round_even :: "num \<Rightarrow> int" where
  "round_even q =
     (let f = \<lfloor>q\<rfloor>; d = q - of_int f
      in if d < 1 / 2 then f else if 1 / 2 < d then f + 1
         else if even f then f else f + 1)"

text \<open>
  The double nearest to \<open>x\<close>. It is also how a number of the JSON text arrives: on a
  value that already is a double it changes nothing.
\<close>

definition rnd64 :: "num \<Rightarrow> num" where
  "rnd64 x =
     (if x = 0 then 0
      else let u = pow2 (ilog2 \<bar>x\<bar> - 52) in of_int (round_even (x / u)) * u)"

definition fadd :: "num \<Rightarrow> num \<Rightarrow> num" where
  "fadd a b = rnd64 (a + b)"

definition fsub :: "num \<Rightarrow> num \<Rightarrow> num" where
  "fsub a b = rnd64 (a - b)"

definition fmul :: "num \<Rightarrow> num \<Rightarrow> num" where
  "fmul a b = rnd64 (a * b)"

definition fdiv :: "num \<Rightarrow> num \<Rightarrow> num" where
  "fdiv a b = rnd64 (a / b)"

section \<open>The raw observation\<close>

record current =
  temperature_2m :: "num option"
  relative_humidity_2m :: "num option"
  precipitation :: "num option"

record daily =
  temperature_2m_max :: "num option list option"
  temperature_2m_min :: "num option list option"
  precipitation_sum :: "num option list option"
  et0_fao_evapotranspiration :: "num option list option"
  uv_index_max :: "num option list option"
  soil_moisture_0_to_10cm_mean :: "num option list option"

record hourly =
  soil_temperature_0cm :: "num option list option"
  soil_moisture_0_to_1cm :: "num option list option"
  vapour_pressure_deficit :: "num option list option"

record weather =
  wx_current :: "current option"
  wx_daily :: "daily option"
  wx_hourly :: "hourly option"

record raw =
  wx :: "weather option"

text \<open>\<^verbatim>\<open>raw.wx?.current || {}\<close> and its two siblings.\<close>

definition cur :: "raw \<Rightarrow> current" where
  "cur r =
     (case wx r of
        None \<Rightarrow> \<lparr>temperature_2m = None, relative_humidity_2m = None, precipitation = None\<rparr>
      | Some w \<Rightarrow>
          nullish (wx_current w)
            \<lparr>temperature_2m = None, relative_humidity_2m = None, precipitation = None\<rparr>)"

definition no_daily :: daily where
  "no_daily =
     \<lparr>temperature_2m_max = None, temperature_2m_min = None, precipitation_sum = None,
      et0_fao_evapotranspiration = None, uv_index_max = None,
      soil_moisture_0_to_10cm_mean = None\<rparr>"

definition dly :: "raw \<Rightarrow> daily" where
  "dly r = (case wx r of None \<Rightarrow> no_daily | Some w \<Rightarrow> nullish (wx_daily w) no_daily)"

definition hrly :: "raw \<Rightarrow> hourly" where
  "hrly r =
     (case wx r of
        None \<Rightarrow>
          \<lparr>soil_temperature_0cm = None, soil_moisture_0_to_1cm = None,
           vapour_pressure_deficit = None\<rparr>
      | Some w \<Rightarrow>
          nullish (wx_hourly w)
            \<lparr>soil_temperature_0cm = None, soil_moisture_0_to_1cm = None,
             vapour_pressure_deficit = None\<rparr>)"

text \<open>The seven readings taken at the head of the function, each with its default.\<close>

definition temp_of :: "raw \<Rightarrow> num" where
  "temp_of r = nullish (temperature_2m (cur r)) 25"

definition humidity_of :: "raw \<Rightarrow> num" where
  "humidity_of r = nullish (relative_humidity_2m (cur r)) 50"

definition precip_of :: "raw \<Rightarrow> num" where
  "precip_of r = nullish (precipitation (cur r)) 0"

definition soilT_of :: "raw \<Rightarrow> num" where
  "soilT_of r = nullish (idx (soil_temperature_0cm (hrly r)) 0) (temp_of r - 2)"

definition soilM_of :: "raw \<Rightarrow> num" where
  "soilM_of r = nullish (idx (soil_moisture_0_to_1cm (hrly r)) 0) (1 / 4)"

definition vpd_of :: "raw \<Rightarrow> num" where
  "vpd_of r = nullish (idx (vapour_pressure_deficit (hrly r)) 0) 1"

definition uvMax_of :: "raw \<Rightarrow> num" where
  "uvMax_of r = nullish (idx (uv_index_max (dly r)) 0) 5"

section \<open>Health score\<close>

text \<open>
  The source mutates one accumulator \<^verbatim>\<open>health\<close>, starting at 100; each block below
  takes the accumulator and returns it updated.
\<close>

definition temp_penalty :: "num \<Rightarrow> num \<Rightarrow> num" where
  "temp_penalty temp health =
     (if temp < 10 then health - 30
      else if temp < 18 then health - (18 - temp) * 2
      else if temp > 38 then health - (temp - 38) * 4
      else if temp > 32 then health - (temp - 32) * 2
      else health)"

definition humidity_penalty :: "num \<Rightarrow> num \<Rightarrow> num" where
  "humidity_penalty humidity health =
     (if humidity < 30 then health - 15
      else if humidity < 50 then health - (50 - humidity) * (1 / 2)
      else if humidity > 90 then health - 10
      else health)"

definition vpd_penalty :: "num \<Rightarrow> num \<Rightarrow> num" where
  "vpd_penalty vpd health =
     (if vpd > 7 / 2 then health - 20
      else if vpd > 2 then health - (vpd - 2) * 8
      else health)"

definition uv_penalty :: "num \<Rightarrow> num \<Rightarrow> num" where
  "uv_penalty uvMax health =
     (if uvMax > 9 then health - 10
      else if uvMax > 7 then health - 5
      else health)"

definition soil_bonus :: "num \<Rightarrow> num \<Rightarrow> num" where
  "soil_bonus soilM health =
     (if soilM > 3 / 10 then health + 5
      else if soilM < 1 / 10 then health - 15
      else health)"

definition health_of :: "raw \<Rightarrow> num" where
  "health_of r =
     max 0 (min 100 (js_round
       (soil_bonus (soilM_of r)
         (uv_penalty (uvMax_of r)
           (vpd_penalty (vpd_of r)
             (humidity_penalty (humidity_of r)
               (temp_penalty (temp_of r) 100)))))))"

definition stressLevel_of :: "num \<Rightarrow> string" where
  "stressLevel_of health =
     (if health \<ge> 75 then ''HEALTHY'' else if health \<ge> 50 then ''MODERATE''
      else if health \<ge> 30 then ''HIGH'' else ''CRITICAL'')"

definition stressColor_of :: "num \<Rightarrow> string" where
  "stressColor_of health =
     (if health \<ge> 75 then ''#00ff88'' else if health \<ge> 50 then ''#ffd60a''
      else if health \<ge> 30 then ''#ff6b2b'' else ''#ff3864'')"

section \<open>Irrigation recommendation\<close>

text \<open>
  A message built from a template literal is a constructor holding the interpolated
  numbers; the fixed wording is in the source.
\<close>

datatype irrig_msg =
    ApplyWithin24h num
  | ScheduleWithin3Days num
  | NextIrrigationIn num

definition et0_of :: "raw \<Rightarrow> num" where
  "et0_of r = nullish (idx (et0_fao_evapotranspiration (dly r)) 0) 4"

text \<open>
  The branch of this block hangs on \<^verbatim>\<open>deficit > 30\<close> and \<^verbatim>\<open>deficit > 15\<close>, so
  its arithmetic is in doubles: the weekly sum is accumulated from the left, one rounded
  addition per entry, and the literals 0.1 and 0.2 are the doubles nearest to them.
\<close>

definition precipWeek_of :: "raw \<Rightarrow> num" where
  "precipWeek_of r =
     foldl (\<lambda>a b. fadd a (rnd64 (to_num b))) 0 (nullish (precipitation_sum (dly r)) [])"

definition deficit_of :: "raw \<Rightarrow> num" where
  "deficit_of r = max 0 (fsub (fmul (rnd64 (et0_of r)) 7) (precipWeek_of r))"

definition irrigRec_of :: "raw \<Rightarrow> irrig_msg" where
  "irrigRec_of r =
     (if rnd64 (soilM_of r) < rnd64 (1 / 10) \<or> deficit_of r > 30
        then ApplyWithin24h (js_round (fadd (deficit_of r) 15))
      else if rnd64 (soilM_of r) < rnd64 (2 / 10) \<or> deficit_of r > 15
        then ScheduleWithin3Days (js_round (fadd (deficit_of r) 8))
      else NextIrrigationIn (js_round (fsub 7 (fdiv (precipWeek_of r) 3))))"

definition irrigUrgency_of :: "raw \<Rightarrow> string" where
  "irrigUrgency_of r =
     (if rnd64 (soilM_of r) < rnd64 (1 / 10) \<or> deficit_of r > 30 then ''URGENT''
      else if rnd64 (soilM_of r) < rnd64 (2 / 10) \<or> deficit_of r > 15 then ''SOON''
      else ''OK'')"

section \<open>Nutrient scores\<close>

datatype nutrient_alert =
    ApplyUrea num
  | ApplyDAP num
  | ApplyMOP num
  | NutrientsAdequate

definition nScore_of :: "raw \<Rightarrow> num" where
  "nScore_of r =
     js_round (max 0 (min 100
       (100 - (if soilT_of r > 30 then 20 else 0) - (if soilM_of r < 15 / 100 then 30 else 0)
            - (if vpd_of r > 2 then 15 else 0) - (if temp_of r > 35 then 10 else 0))))"

definition pScore_of :: "raw \<Rightarrow> num" where
  "pScore_of r =
     js_round (max 0 (min 100
       (100 - (if soilT_of r < 10 then 25 else 0) - (if humidity_of r < 40 then 20 else 0)
            - (if precip_of r > 10 then 10 else 0))))"

definition kScore_of :: "raw \<Rightarrow> num" where
  "kScore_of r =
     js_round (max 0 (min 100
       (100 - (if vpd_of r > 5 / 2 then 25 else 0) - (if humidity_of r > 85 then 15 else 0)
            - (if soilM_of r > 4 / 10 then 10 else 0))))"

text \<open>The list starts empty; each \<^verbatim>\<open>push\<close> appends.\<close>

definition nutrientAlerts_of :: "raw \<Rightarrow> nutrient_alert list" where
  "nutrientAlerts_of r =
     (let a1 = (if nScore_of r < 60 then [ApplyUrea (100 - nScore_of r)] else []);
          a2 = (if pScore_of r < 60 then a1 @ [ApplyDAP (100 - pScore_of r)] else a1);
          a3 = (if kScore_of r < 60 then a2 @ [ApplyMOP (100 - kScore_of r)] else a2)
      in if a3 = [] then a3 @ [NutrientsAdequate] else a3)"

section \<open>Temperature alert\<close>

datatype temp_msg =
    SevereHeat num
  | HeatStress num
  | NearFrost num
  | CoolNights num
  | TempInRange num num

definition tMax_of :: "raw \<Rightarrow> num" where
  "tMax_of r = nullish (idx (temperature_2m_max (dly r)) 0) (temp_of r)"

definition tMin_of :: "raw \<Rightarrow> num" where
  "tMin_of r = nullish (idx (temperature_2m_min (dly r)) 0) (temp_of r - 8)"

definition tempAlert_of :: "raw \<Rightarrow> temp_msg" where
  "tempAlert_of r =
     (if tMax_of r > 42 then SevereHeat (tMax_of r)
      else if tMax_of r > 36 then HeatStress (tMax_of r)
      else if tMin_of r < 4 then NearFrost (tMin_of r)
      else if tMin_of r < 10 then CoolNights (tMin_of r)
      else TempInRange (tMin_of r) (tMax_of r))"

definition tempAlertLevel_of :: "raw \<Rightarrow> string" where
  "tempAlertLevel_of r =
     (if tMax_of r > 42 then ''CRITICAL''
      else if tMax_of r > 36 then ''HIGH''
      else if tMin_of r < 4 then ''HIGH''
      else if tMin_of r < 10 then ''MODERATE''
      else ''OK'')"

section \<open>Seven-day trend\<close>

text \<open>
  One entry per element of \<^verbatim>\<open>daily.temperature_2m_max\<close>, or seven copies of the
  current temperature when that array is absent. The element \<^verbatim>\<open>tmax\<close> has no
  default of its own: a null element is compared and subtracted as the number 0.
  The rendered \<^verbatim>\<open>tmax\<close> is absent (a dash in the source) for a null element.
\<close>

record trend_entry =
  tr_day :: nat
  tr_h :: num
  tr_tmax :: "num option"
  tr_pr :: num

definition trend_h :: "num \<Rightarrow> num \<Rightarrow> num \<Rightarrow> num \<Rightarrow> num" where
  "trend_h tmax sm uv pr =
     (let h0 = 100;
          h1 = (if tmax > 38 then h0 - (tmax - 38) * 4 else h0);
          h2 = (if tmax < 18 then h1 - (18 - tmax) * 2 else h1);
          h3 = (if sm < 1 / 10 then h2 - 15 else h2);
          h4 = (if uv > 9 then h3 - 10 else h3);
          h5 = (if pr > 20 then h4 - 5 else h4)
      in max 0 (min 100 (js_round h5)))"

definition trend_day :: "raw \<Rightarrow> nat \<Rightarrow> num option \<Rightarrow> trend_entry" where
  "trend_day r i tmax =
     (let sm = nullish (idx (soil_moisture_0_to_10cm_mean (dly r)) i) (soilM_of r);
          pr = nullish (idx (precipitation_sum (dly r)) i) 0;
          uv = nullish (idx (uv_index_max (dly r)) i) (uvMax_of r)
      in \<lparr>tr_day = i, tr_h = trend_h (to_num tmax) sm uv pr,
          tr_tmax = map_option (toFixed 1) tmax, tr_pr = toFixed 1 pr\<rparr>)"

definition trend_of :: "raw \<Rightarrow> trend_entry list" where
  "trend_of r =
     map (\<lambda>(i, tmax). trend_day r i tmax)
       (enumerate 0 (nullish (temperature_2m_max (dly r)) (replicate 7 (Some (temp_of r)))))"

section \<open>Soil health\<close>

datatype soil_issue =
    LowSoilMoisture
  | ExcessMoisture
  | ColdSoil
  | OverlyWarmSoil
  | PoorAeration
  | LowMicrobialActivity
  | LowOrganicMatter
  | SoilHealthy

definition soilMoisturePct_of :: "raw \<Rightarrow> num" where
  "soilMoisturePct_of r = toFixed 1 (soilM_of r * 100)"

definition mScore_of :: "raw \<Rightarrow> num" where
  "mScore_of r =
     (if soilMoisturePct_of r < 5 then 10
      else if soilMoisturePct_of r < 15 then 40
      else if soilMoisturePct_of r < 20 then 70
      else if soilMoisturePct_of r > 60 then 50
      else if soilMoisturePct_of r > 45 then 75
      else 100)"

definition stScore_of :: "raw \<Rightarrow> num" where
  "stScore_of r =
     (if soilT_of r < 5 then 20
      else if soilT_of r < 10 then 55
      else if soilT_of r < 15 then 80
      else if soilT_of r > 35 then 40
      else if soilT_of r > 28 then 75
      else 100)"

definition aerationScore_of :: "raw \<Rightarrow> num" where
  "aerationScore_of r =
     (if soilMoisturePct_of r > 50 then max 20 (100 - (soilMoisturePct_of r - 50) * 3)
      else if soilMoisturePct_of r < 10 then 40
      else 90)"

definition organicScore_of :: "raw \<Rightarrow> num" where
  "organicScore_of r =
     js_round (max 20 (min 100
       (50 + (if soilMoisturePct_of r > 20 \<and> soilMoisturePct_of r < 45 then 25 else 0)
           + (if soilT_of r > 12 \<and> soilT_of r < 30 then 20 else 0)
           + (if humidity_of r > 55 then 5 else - 10))))"

definition microbialScore_of :: "raw \<Rightarrow> num" where
  "microbialScore_of r =
     js_round (max 10 (min 100
       (100 - (if soilT_of r < 10 then 40 else if soilT_of r > 35 then 30 else 0)
            - (if soilMoisturePct_of r < 15 then 35
               else if soilMoisturePct_of r > 55 then 20 else 0)
            - (if vpd_of r > 3 then 15 else 0))))"

definition structureScore_of :: "raw \<Rightarrow> num" where
  "structureScore_of r =
     js_round (max 20 (min 100
       (mScore_of r * (4 / 10) + aerationScore_of r * (3 / 10) + stScore_of r * (3 / 10))))"

definition soilHealth_of :: "raw \<Rightarrow> num" where
  "soilHealth_of r =
     js_round ((mScore_of r + stScore_of r + aerationScore_of r + organicScore_of r
                + microbialScore_of r + structureScore_of r) / 6)"

definition soilStatus_of :: "num \<Rightarrow> string" where
  "soilStatus_of soilHealth =
     (if soilHealth \<ge> 80 then ''EXCELLENT'' else if soilHealth \<ge> 60 then ''GOOD''
      else if soilHealth \<ge> 40 then ''FAIR'' else ''POOR'')"

definition soilStatusColor_of :: "num \<Rightarrow> string" where
  "soilStatusColor_of soilHealth =
     (if soilHealth \<ge> 80 then ''#00ff88'' else if soilHealth \<ge> 60 then ''#39ff14''
      else if soilHealth \<ge> 40 then ''#ffd60a'' else ''#ff3864'')"

definition soilIssues_of :: "raw \<Rightarrow> soil_issue list" where
  "soilIssues_of r =
     (let s1 = (if mScore_of r < 60
                then [if soilMoisturePct_of r < 20 then LowSoilMoisture else ExcessMoisture]
                else []);
          s2 = (if stScore_of r < 60
                then s1 @ [if soilT_of r < 12 then ColdSoil else OverlyWarmSoil] else s1);
          s3 = (if aerationScore_of r < 60 then s2 @ [PoorAeration] else s2);
          s4 = (if microbialScore_of r < 60 then s3 @ [LowMicrobialActivity] else s3);
          s5 = (if organicScore_of r < 60 then s4 @ [LowOrganicMatter] else s4)
      in if s5 = [] then s5 @ [SoilHealthy] else s5)"

section \<open>The assessment\<close>

record metrics =
  health :: num
  stressPct :: num
  stressLevel :: string
  stressColor :: string
  temp :: num
  humidity :: num
  precip :: num
  soilT :: num
  soilM :: num
  vpd :: num
  uvMax :: num
  tMax :: num
  tMin :: num
  irrigRec :: irrig_msg
  irrigUrgency :: string
  nScore :: num
  pScore :: num
  kScore :: num
  nutrientAlerts :: "nutrient_alert list"
  tempAlert :: temp_msg
  tempAlertLevel :: string
  trend :: "trend_entry list"
  et0 :: num
  deficit :: num
  soilHealth :: num
  soilStatus :: string
  soilStatusColor :: string
  soilIssues :: "soil_issue list"
  mScore :: num
  stScore :: num
  aerationScore :: num
  organicScore :: num
  microbialScore :: num
  structureScore :: num

text \<open>
  The first statement reads \<^verbatim>\<open>raw.wx\<close>: with no \<^verbatim>\<open>raw\<close> at all the property
  read throws a TypeError. Nothing else in the body can throw on an input of the types
  above. A field of another JavaScript type (a string where a number is expected, a
  non-empty value that is not an array where \<^verbatim>\<open>reduce\<close> or \<^verbatim>\<open>map\<close> is called) can
  make the body throw a TypeError too; the record types leave such inputs out, and no
  statement below is about them. The second parameter is never used.
\<close>

definition deriveMetrics :: "raw option \<Rightarrow> string \<Rightarrow> js_error + metrics" where
  "deriveMetrics raw_arg cropType =
     (case raw_arg of
        None \<Rightarrow> Inl TypeError
      | Some r \<Rightarrow>
          Inr \<lparr>health = health_of r,
               stressPct = 100 - health_of r,
               stressLevel = stressLevel_of (health_of r),
               stressColor = stressColor_of (health_of r),
               temp = temp_of r,
               humidity = humidity_of r,
               precip = precip_of r,
               soilT = soilT_of r,
               soilM = toFixed 1 (soilMoisturePct_of r),
               vpd = toFixed 2 (vpd_of r),
               uvMax = uvMax_of r,
               tMax = tMax_of r,
               tMin = tMin_of r,
               irrigRec = irrigRec_of r,
               irrigUrgency = irrigUrgency_of r,
               nScore = nScore_of r,
               pScore = pScore_of r,
               kScore = kScore_of r,
               nutrientAlerts = nutrientAlerts_of r,
               tempAlert = tempAlert_of r,
               tempAlertLevel = tempAlertLevel_of r,
               trend = trend_of r,
               et0 = toFixed 1 (et0_of r),
               deficit = toFixed 1 (deficit_of r),
               soilHealth = soilHealth_of r,
               soilStatus = soilStatus_of (soilHealth_of r),
               soilStatusColor = soilStatusColor_of (soilHealth_of r),
               soilIssues = soilIssues_of r,
               mScore = mScore_of r,
               stScore = stScore_of r,
               aerationScore = aerationScore_of r,
               organicScore = organicScore_of r,
               microbialScore = microbialScore_of r,
               structureScore = structureScore_of r\<rparr>)"

section \<open>Well-formed observations and sample inputs\<close>

text \<open>
  The input shape that the documentation calls a valid observation: every current
  reading present, every daily array present with seven non-null entries, every hourly
  array present with a non-null first entry, and each quantity inside its physical
  range. The function itself checks none of this; the predicate only delimits the
  inputs that existence statements below are allowed to pick.
\<close>

definition present :: "num option \<Rightarrow> bool" where
  "present a = (case a of None \<Rightarrow> False | Some v \<Rightarrow> True)"

definition in_range :: "num \<Rightarrow> num \<Rightarrow> num option \<Rightarrow> bool" where
  "in_range lo hi a = (case a of None \<Rightarrow> False | Some v \<Rightarrow> lo \<le> v \<and> v \<le> hi)"

definition week_of :: "(num option \<Rightarrow> bool) \<Rightarrow> num option list option \<Rightarrow> bool" where
  "week_of ok a = (case a of None \<Rightarrow> False | Some xs \<Rightarrow> length xs = 7 \<and> list_all ok xs)"

definition first_of :: "(num option \<Rightarrow> bool) \<Rightarrow> num option list option \<Rightarrow> bool" where
  "first_of ok a = (case a of None \<Rightarrow> False | Some xs \<Rightarrow> xs \<noteq> [] \<and> ok (hd xs))"

definition valid_observation :: "raw \<Rightarrow> bool" where
  "valid_observation r =
     (case wx r of
        None \<Rightarrow> False
      | Some w \<Rightarrow>
          (case wx_current w of
             None \<Rightarrow> False
           | Some c \<Rightarrow>
               present (temperature_2m c) \<and> in_range 0 100 (relative_humidity_2m c)
               \<and> in_range 0 1000 (precipitation c))
          \<and> (case wx_daily w of
                None \<Rightarrow> False
              | Some d \<Rightarrow>
                  week_of present (temperature_2m_max d)
                  \<and> week_of present (temperature_2m_min d)
                  \<and> week_of (in_range 0 1000) (precipitation_sum d)
                  \<and> week_of (in_range 0 100) (et0_fao_evapotranspiration d)
                  \<and> week_of (in_range 0 20) (uv_index_max d)
                  \<and> week_of (in_range 0 1) (soil_moisture_0_to_10cm_mean d))
          \<and> (case wx_hourly w of
                None \<Rightarrow> False
              | Some h \<Rightarrow>
                  first_of present (soil_temperature_0cm h)
                  \<and> first_of (in_range 0 1) (soil_moisture_0_to_1cm h)
                  \<and> first_of (in_range 0 100) (vapour_pressure_deficit h)))"

text \<open>A daily array holding the same value on all seven days.\<close>

definition week :: "num \<Rightarrow> num option list option" where
  "week v = Some [Some v, Some v, Some v, Some v, Some v, Some v, Some v]"

text \<open>
  38 degrees, 50 percent humidity, VPD 1.0, UV index 5, soil moisture 0.25; every
  other field absent.
\<close>

definition obs_38 :: raw where
  "obs_38 =
     \<lparr>wx = Some
        \<lparr>wx_current = Some \<lparr>temperature_2m = Some 38, relative_humidity_2m = Some 50,
                              precipitation = None\<rparr>,
         wx_daily = Some (no_daily\<lparr>uv_index_max := Some [Some 5]\<rparr>),
         wx_hourly = Some \<lparr>soil_temperature_0cm = None,
                            soil_moisture_0_to_1cm = Some [Some (1 / 4)],
                            vapour_pressure_deficit = Some [Some 1]\<rparr>\<rparr>\<rparr>"

text \<open>A forecast of three days instead of seven.\<close>

definition obs_short :: raw where
  "obs_short =
     \<lparr>wx = Some
        \<lparr>wx_current = Some \<lparr>temperature_2m = Some 25, relative_humidity_2m = Some 60,
                              precipitation = Some 0\<rparr>,
         wx_daily = Some
           \<lparr>temperature_2m_max = Some [Some 28, Some 29, Some 30],
            temperature_2m_min = Some [Some 16, Some 17, Some 18],
            precipitation_sum = Some [Some 0, Some 0, Some 0],
            et0_fao_evapotranspiration = Some [Some 4, Some 4, Some 4],
            uv_index_max = Some [Some 5, Some 5, Some 5],
            soil_moisture_0_to_10cm_mean = Some [Some (1 / 4), Some (1 / 4), Some (1 / 4)]\<rparr>,
         wx_hourly = Some
           \<lparr>soil_temperature_0cm = Some [Some 22],
            soil_moisture_0_to_1cm = Some [Some (1 / 4)],
            vapour_pressure_deficit = Some [Some 1]\<rparr>\<rparr>\<rparr>"

text \<open>A full week whose day-0 maximum temperature is null.\<close>

definition obs_null_max :: raw where
  "obs_null_max =
     \<lparr>wx = Some
        \<lparr>wx_current = Some \<lparr>temperature_2m = Some 25, relative_humidity_2m = Some 60,
                              precipitation = Some 0\<rparr>,
         wx_daily = Some
           \<lparr>temperature_2m_max =
              Some [None, Some 28, Some 28, Some 28, Some 28, Some 28, Some 28],
            temperature_2m_min = week 16,
            precipitation_sum = week 0, et0_fao_evapotranspiration = week 4,
            uv_index_max = week 5, soil_moisture_0_to_10cm_mean = week (1 / 4)\<rparr>,
         wx_hourly = Some
           \<lparr>soil_temperature_0cm = Some [Some 22],
            soil_moisture_0_to_1cm = Some [Some (1 / 4)],
            vapour_pressure_deficit = Some [Some 1]\<rparr>\<rparr>\<rparr>"

text \<open>
  Soil moisture 0.05, reference evapotranspiration 10 mm a day and 30 mm of rain over
  the week: seven times 10 minus 30 is 40.
\<close>

definition obs_parched :: raw where
  "obs_parched =
     \<lparr>wx = Some
        \<lparr>wx_current = Some \<lparr>temperature_2m = Some 30, relative_humidity_2m = Some 40,
                              precipitation = Some 0\<rparr>,
         wx_daily = Some
           \<lparr>temperature_2m_max = week 34, temperature_2m_min = week 20,
            precipitation_sum =
              Some [Some 10, Some 5, Some 5, Some 5, Some 5, Some 0, Some 0],
            et0_fao_evapotranspiration = week 10,
            uv_index_max = week 8, soil_moisture_0_to_10cm_mean = week (1 / 20)\<rparr>,
         wx_hourly = Some
           \<lparr>soil_temperature_0cm = Some [Some 26],
            soil_moisture_0_to_1cm = Some [Some (1 / 20)],
            vapour_pressure_deficit = Some [Some 2]\<rparr>\<rparr>\<rparr>"

text \<open>A day-0 maximum of 43 degrees together with a day-0 minimum of 2 degrees.\<close>

definition obs_heatwave :: raw where
  "obs_heatwave =
     \<lparr>wx = Some
        \<lparr>wx_current = Some \<lparr>temperature_2m = Some 20, relative_humidity_2m = Some 30,
                              precipitation = Some 0\<rparr>,
         wx_daily = Some
           \<lparr>temperature_2m_max =
              Some [Some 43, Some 30, Some 30, Some 30, Some 30, Some 30, Some 30],
            temperature_2m_min = week 2,
            precipitation_sum = week 0,
            et0_fao_evapotranspiration = week 6,
            uv_index_max = week 10, soil_moisture_0_to_10cm_mean = week (1 / 5)\<rparr>,
         wx_hourly = Some
           \<lparr>soil_temperature_0cm = Some [Some 24],
            soil_moisture_0_to_1cm = Some [Some (1 / 5)],
            vapour_pressure_deficit = Some [Some 3]\<rparr>\<rparr>\<rparr>"

text \<open>
  A week with reference evapotranspiration 6.0 and rain 3.1, 2.2, 4.6, 7.0, 2.2, 2.2 and
  5.7 mm, as the decimals of the JSON text. Taken exactly, the rain sums to 27 and the
  deficit is 15; in doubles the sum is a little below 27 and the deficit a little
  above 15.
\<close>

definition obs_borderline :: raw where
  "obs_borderline =
     \<lparr>wx = Some
        \<lparr>wx_current = Some \<lparr>temperature_2m = Some 25, relative_humidity_2m = Some 60,
                              precipitation = Some 0\<rparr>,
         wx_daily = Some
           \<lparr>temperature_2m_max = week 28, temperature_2m_min = week 16,
            precipitation_sum =
              Some [Some (31 / 10), Some (22 / 10), Some (46 / 10), Some 7, Some (22 / 10),
                    Some (22 / 10), Some (57 / 10)],
            et0_fao_evapotranspiration = week 6,
            uv_index_max = week 5, soil_moisture_0_to_10cm_mean = week (1 / 4)\<rparr>,
         wx_hourly = Some
           \<lparr>soil_temperature_0cm = Some [Some 22],
            soil_moisture_0_to_1cm = Some [Some (1 / 4)],
            vapour_pressure_deficit = Some [Some 1]\<rparr>\<rparr>\<rparr>"

text \<open>An observation given by its three parts, all present.\<close>

definition observed :: "current \<Rightarrow> daily \<Rightarrow> hourly \<Rightarrow> raw" where
  "observed c d h = \<lparr>wx = Some \<lparr>wx_current = Some c, wx_daily = Some d, wx_hourly = Some h\<rparr>\<rparr>"

text \<open>A mild week with dry air (20 percent humidity): every field present.\<close>

definition obs_dry_air :: raw where
  "obs_dry_air =
     \<lparr>wx = Some
        \<lparr>wx_current = Some \<lparr>temperature_2m = Some 25, relative_humidity_2m = Some 20,
                              precipitation = Some 0\<rparr>,
         wx_daily = Some
           \<lparr>temperature_2m_max = week 28, temperature_2m_min = week 16,
            precipitation_sum = week 0, et0_fao_evapotranspiration = week 4,
            uv_index_max = week 5, soil_moisture_0_to_10cm_mean = week (1 / 4)\<rparr>,
         wx_hourly = Some
           \<lparr>soil_temperature_0cm = Some [Some 22],
            soil_moisture_0_to_1cm = Some [Some (1 / 4)],
            vapour_pressure_deficit = Some [Some 1]\<rparr>\<rparr>\<rparr>"

text \<open>A mild, rainy week: 5 mm on each of the first six days.\<close>

definition obs_rainy :: raw where
  "obs_rainy =
     \<lparr>wx = Some
        \<lparr>wx_current = Some \<lparr>temperature_2m = Some 25, relative_humidity_2m = Some 60,
                              precipitation = Some 0\<rparr>,
         wx_daily = Some
           \<lparr>temperature_2m_max = week 28, temperature_2m_min = week 16,
            precipitation_sum =
              Some [Some 5, Some 5, Some 5, Some 5, Some 5, Some 5, Some 0],
            et0_fao_evapotranspiration = week 4,
            uv_index_max = week 5, soil_moisture_0_to_10cm_mean = week (1 / 4)\<rparr>,
         wx_hourly = Some
           \<lparr>soil_temperature_0cm = Some [Some 22],
            soil_moisture_0_to_1cm = Some [Some (1 / 4)],
            vapour_pressure_deficit = Some [Some 1]\<rparr>\<rparr>\<rparr>"

section \<open>Basic facts\<close>

lemmas reading_defs = cur_def dly_def hrly_def no_daily_def nullish_def idx_def to_num_def
  temp_of_def humidity_of_def precip_of_def soilT_of_def soilM_of_def vpd_of_def uvMax_of_def

lemmas penalty_defs = temp_penalty_def humidity_penalty_def vpd_penalty_def uv_penalty_def
  soil_bonus_def

lemmas valid_defs = valid_observation_def week_of_def first_of_def in_range_def present_def
  week_def

lemma js_round_int: "js_round x \<in> \<int>"
  by (simp add: js_round_def)

lemma clamp_int: "js_round x \<in> \<int> \<Longrightarrow> max 0 (min 100 (js_round x)) \<in> \<int>"
  by (simp add: max_def min_def)

lemma js_round_between:
  "of_int a \<le> x \<Longrightarrow> x \<le> of_int b \<Longrightarrow> of_int a \<le> js_round x \<and> js_round x \<le> of_int b"
  unfolding js_round_def by (simp add: le_floor_iff floor_le_iff)

lemma js_round_0_100: "0 \<le> x \<Longrightarrow> x \<le> 100 \<Longrightarrow> 0 \<le> js_round x \<and> js_round x \<le> 100"
  using js_round_between [of 0 x 100] by simp

lemma length_trend:
  "length (trend_of r) =
     (case temperature_2m_max (dly r) of None \<Rightarrow> 7 | Some xs \<Rightarrow> length xs)"
  by (simp add: trend_of_def nullish_def split: option.splits)

lemma trend_h_range: "0 \<le> trend_h tmax sm uv pr \<and> trend_h tmax sm uv pr \<le> 100"
  by (simp add: trend_h_def Let_def)

lemma trend_of_range: "e \<in> set (trend_of r) \<Longrightarrow> 0 \<le> tr_h e \<and> tr_h e \<le> 100"
  by (auto simp: trend_of_def trend_day_def Let_def trend_h_range)

lemma nScore_range: "0 \<le> nScore_of r \<and> nScore_of r \<le> 100"
  unfolding nScore_of_def by (rule js_round_0_100) simp_all

lemma pScore_range: "0 \<le> pScore_of r \<and> pScore_of r \<le> 100"
  unfolding pScore_of_def by (rule js_round_0_100) simp_all

lemma kScore_range: "0 \<le> kScore_of r \<and> kScore_of r \<le> 100"
  unfolding kScore_of_def by (rule js_round_0_100) simp_all

lemma mScore_range: "0 \<le> mScore_of r \<and> mScore_of r \<le> 100"
  by (simp add: mScore_of_def)

lemma stScore_range: "0 \<le> stScore_of r \<and> stScore_of r \<le> 100"
  by (simp add: stScore_of_def)

lemma aerationScore_range: "0 \<le> aerationScore_of r \<and> aerationScore_of r \<le> 100"
  by (simp add: aerationScore_of_def max_def)

lemma organicScore_range: "0 \<le> organicScore_of r \<and> organicScore_of r \<le> 100"
  unfolding organicScore_of_def by (rule js_round_0_100) simp_all

lemma microbialScore_range: "0 \<le> microbialScore_of r \<and> microbialScore_of r \<le> 100"
  unfolding microbialScore_of_def by (rule js_round_0_100) simp_all

lemma structureScore_range: "0 \<le> structureScore_of r \<and> structureScore_of r \<le> 100"
  unfolding structureScore_of_def by (rule js_round_0_100) simp_all

lemmas derived_defs = health_of_def irrigRec_of_def irrigUrgency_of_def deficit_of_def
  nScore_of_def pScore_of_def kScore_of_def nutrientAlerts_of_def
  tempAlert_of_def tempAlertLevel_of_def
  soilMoisturePct_of_def mScore_of_def stScore_of_def aerationScore_of_def organicScore_of_def
  microbialScore_of_def structureScore_of_def soilHealth_of_def soilIssues_of_def

text \<open>
  The assessment depends on the input only through the readings taken at the head of the
  function, the day-0 extremes, the weekly rain and the trend.
\<close>

lemma deriveMetrics_cong:
  assumes "temp_of r = temp_of r'" "humidity_of r = humidity_of r'"
    "precip_of r = precip_of r'" "soilT_of r = soilT_of r'" "soilM_of r = soilM_of r'"
    "vpd_of r = vpd_of r'" "uvMax_of r = uvMax_of r'" "et0_of r = et0_of r'"
    "precipWeek_of r = precipWeek_of r'" "tMax_of r = tMax_of r'" "tMin_of r = tMin_of r'"
    "trend_of r = trend_of r'"
  shows "deriveMetrics (Some r) crop = deriveMetrics (Some r') crop"
  unfolding deriveMetrics_def derived_defs by (simp only: assms option.case)

text \<open>
  The trend depends on the input only through the array of daily maxima (or the
  current temperature in its place) and, day by day, the defaulted soil moisture,
  precipitation and UV index.
\<close>

lemma trend_of_cong:
  assumes "temperature_2m_max (dly r) = temperature_2m_max (dly r')"
    and "temp_of r = temp_of r'"
    and "\<And>i. nullish (idx (soil_moisture_0_to_10cm_mean (dly r)) i) (soilM_of r)
             = nullish (idx (soil_moisture_0_to_10cm_mean (dly r')) i) (soilM_of r')"
    and "\<And>i. nullish (idx (precipitation_sum (dly r)) i) 0
             = nullish (idx (precipitation_sum (dly r')) i) 0"
    and "\<And>i. nullish (idx (uv_index_max (dly r)) i) (uvMax_of r)
             = nullish (idx (uv_index_max (dly r')) i) (uvMax_of r')"
  shows "trend_of r = trend_of r'"
proof -
  have "trend_day r i t = trend_day r' i t" for i t
    by (simp add: trend_day_def assms(3-5))
  then show ?thesis
    by (simp add: trend_of_def assms(1,2))
qed

text \<open>Reading an array in which one entry has been replaced.\<close>

lemma idx_filled:
  "nullish (idx (Some (ys @ None # zs)) i) v
     = nullish (idx (Some (ys @ Some (nullish (idx (Some (ys @ None # zs)) (length ys)) v) # zs)) i) v"
  by (simp add: idx_def nullish_def nth_append nth_Cons')

lemma idx_other:
  "i \<noteq> length ys \<Longrightarrow> idx (Some (ys @ a # zs)) i = idx (Some (ys @ b # zs)) i"
  by (auto simp: idx_def nth_append nth_Cons')

lemma idx_at: "idx (Some (ys @ a # zs)) (length ys) = a"
  by (simp add: idx_def)

lemma observed_parts [simp]:
  "cur (observed c d h) = c" "dly (observed c d h) = d" "hrly (observed c d h) = h"
  by (simp_all add: observed_def cur_def dly_def hrly_def nullish_def)

text \<open>
  A null entry of \<^verbatim>\<open>daily.temperature_2m_max\<close> enters the trend as 0 degrees and
  takes the below-18 penalty of 36 points, although the entry is rendered as a dash.
\<close>

lemma null_tmax_counts_as_zero: "trend_h (to_num None) sm uv pr \<le> 64"
  by (simp add: to_num_def trend_h_def Let_def js_round_def)

text \<open>Evaluating the rounding on numerals.\<close>

lemma ilog2_up_numeral:
  "ilog2_up (numeral k) x e
     = (if x < 2 then e else ilog2_up (pred_numeral k) (x / 2) (e + 1))"
  by (simp add: numeral_eq_Suc)

lemma ilog2_down_numeral:
  "ilog2_down (numeral k) x e
     = (if 1 \<le> x then e else ilog2_down (pred_numeral k) (x * 2) (e - 1))"
  by (simp add: numeral_eq_Suc)

lemmas rnd64_eval = rnd64_def ilog2_def pow2_def round_even_def Let_def ilog2_up_numeral
  ilog2_down_numeral fadd_def fsub_def fmul_def fdiv_def

text \<open>The doubles nearest to 0.1 and 0.2, and their sum in doubles.\<close>

lemma rnd64_tenth: "rnd64 (1 / 10) = 3602879701896397 / 36028797018963968"
  by (simp add: rnd64_eval)

lemma rnd64_fifth: "rnd64 (1 / 5) = 3602879701896397 / 18014398509481984"
  by (simp add: rnd64_eval)

lemma rnd64_quarter: "rnd64 (1 / 4) = 1 / 4"
  by (simp add: rnd64_eval)

lemma tenth_plus_fifth:
  "fadd (rnd64 (1 / 10)) (rnd64 (1 / 5)) = 1351079888211149 / 4503599627370496"
  by (simp add: rnd64_tenth rnd64_fifth) (simp add: rnd64_eval)

text \<open>
  Two cases where the rounding decides the outcome: with evapotranspiration 4.4 and
  0.8 mm of rain the difference is just above 30, not 30; with 5.1 and 0.2 mm the
  message amount is 50, not 51.
\<close>

lemma rounding_decides:
  "fsub (fmul (rnd64 (44 / 10)) 7) (fadd 0 (rnd64 (8 / 10)))
     = 8444249301319681 / 281474976710656"
  "js_round (fadd (fsub (fmul (rnd64 (51 / 10)) 7) (fadd 0 (rnd64 (2 / 10)))) 15) = 50"
  by (simp_all add: rnd64_eval js_round_def)

lemma fadd_40_15: "fadd 40 15 = 55"
  by (simp add: rnd64_eval)

text \<open>
  The borderline week: the rain sums to 26.999999999999996 and the deficit is
  15.000000000000004, so the urgency is SOON and the message names 23 mm.
\<close>

lemma borderline_precipWeek:
  "precipWeek_of obs_borderline = 7599824371187711 / 281474976710656"
  by (simp add: precipWeek_of_def obs_borderline_def dly_def nullish_def to_num_def rnd64_eval)

lemma borderline_deficit:
  "deficit_of obs_borderline = 4222124650659841 / 281474976710656"
proof -
  have "et0_of obs_borderline = 6"
    by (simp add: et0_of_def obs_borderline_def dly_def nullish_def idx_def week_def)
  then show ?thesis
    by (simp add: deficit_of_def borderline_precipWeek) (simp add: rnd64_eval)
qed

lemma borderline_week:
  "irrigUrgency_of obs_borderline = ''SOON''
   \<and> irrigRec_of obs_borderline = ScheduleWithin3Days 23"
proof -
  have m: "soilM_of obs_borderline = 1 / 4"
    by (simp add: obs_borderline_def reading_defs)
  have a: "fadd (4222124650659841 / 281474976710656) 8 = 6473924464345089 / 281474976710656"
    by (simp add: rnd64_eval)
  show ?thesis
    by (simp add: irrigUrgency_of_def irrigRec_of_def borderline_deficit m rnd64_quarter
        rnd64_tenth rnd64_fifth a js_round_def)
qed

section \<open>Health score and stress percentage\<close>

text \<open>
  C1. For every observation the function returns an assessment whose health score is an
  integer between 0 and 100, and whose stress percentage is exactly 100 minus the
  health score.
\<close>

theorem health_bounded_and_stress_complement:
  "\<exists>m. deriveMetrics (Some r) crop = Inr m
       \<and> health m \<in> \<int> \<and> 0 \<le> health m \<and> health m \<le> 100
       \<and> stressPct m = 100 - health m"
  by (simp add: deriveMetrics_def health_of_def clamp_int js_round_int)

text \<open>
  C2, as amended. With temperature 38, humidity 50, VPD 1.0, UV index 5 and soil moisture
  0.25 the health score is 88. The penalty of 4 points per degree above 38 needs a
  temperature strictly above 38 and is not applied; the branch after it, 2 points per
  degree above 32, is the one that 38 reaches, and it takes 12 points.
\<close>

theorem health_at_38_is_88:
  assumes "temp_of r = 38" "humidity_of r = 50" "vpd_of r = 1" "uvMax_of r = 5"
    "soilM_of r = 1 / 4"
  shows "\<exists>m. deriveMetrics (Some r) crop = Inr m \<and> health m = 88
           \<and> temp_penalty (temp_of r) 100 = 100 - (38 - 32) * 2"
  using assms by (simp add: deriveMetrics_def health_of_def penalty_defs js_round_def)

theorem health_at_38_is_88_witness:
  "temp_of obs_38 = 38 \<and> humidity_of obs_38 = 50 \<and> vpd_of obs_38 = 1
   \<and> uvMax_of obs_38 = 5 \<and> soilM_of obs_38 = 1 / 4
   \<and> (\<exists>m. deriveMetrics (Some obs_38) '''' = Inr m \<and> health m = 88)"
proof -
  have r: "temp_of obs_38 = 38" "humidity_of obs_38 = 50" "vpd_of obs_38 = 1"
    "uvMax_of obs_38 = 5" "soilM_of obs_38 = 1 / 4"
    by (simp_all add: obs_38_def reading_defs)
  from health_at_38_is_88 [OF r, of "''''"] r show ?thesis by blast
qed

text \<open>
  C2, as first stated (a health score of 100 at these readings), fails on the
  observation that carries exactly these five readings and nothing else.
\<close>

theorem health_at_38_not_100:
  "map_sum id health (deriveMetrics (Some obs_38) '''') = Inr 88
   \<and> map_sum id health (deriveMetrics (Some obs_38) '''') \<noteq> Inr 100"
  by (simp add: deriveMetrics_def health_of_def penalty_defs js_round_def obs_38_def
      reading_defs)

section \<open>Failure and defaults\<close>

lemma default_temperature:
  "deriveMetrics (Some (observed (c\<lparr>temperature_2m := None\<rparr>) d h)) crop
     = deriveMetrics (Some (observed (c\<lparr>temperature_2m := Some 25\<rparr>) d h)) crop"
  by (rule deriveMetrics_cong [OF _ _ _ _ _ _ _ _ _ _ _ trend_of_cong])
    (simp_all add: temp_of_def humidity_of_def precip_of_def soilT_of_def soilM_of_def
      vpd_of_def uvMax_of_def et0_of_def precipWeek_of_def tMax_of_def tMin_of_def nullish_def)

lemma default_humidity:
  "deriveMetrics (Some (observed (c\<lparr>relative_humidity_2m := None\<rparr>) d h)) crop
     = deriveMetrics (Some (observed (c\<lparr>relative_humidity_2m := Some 50\<rparr>) d h)) crop"
  by (rule deriveMetrics_cong [OF _ _ _ _ _ _ _ _ _ _ _ trend_of_cong])
    (simp_all add: temp_of_def humidity_of_def precip_of_def soilT_of_def soilM_of_def
      vpd_of_def uvMax_of_def et0_of_def precipWeek_of_def tMax_of_def tMin_of_def nullish_def)

lemma default_precipitation:
  "deriveMetrics (Some (observed (c\<lparr>precipitation := None\<rparr>) d h)) crop
     = deriveMetrics (Some (observed (c\<lparr>precipitation := Some 0\<rparr>) d h)) crop"
  by (rule deriveMetrics_cong [OF _ _ _ _ _ _ _ _ _ _ _ trend_of_cong])
    (simp_all add: temp_of_def humidity_of_def precip_of_def soilT_of_def soilM_of_def
      vpd_of_def uvMax_of_def et0_of_def precipWeek_of_def tMax_of_def tMin_of_def nullish_def)

lemma default_soil_temperature:
  "deriveMetrics (Some (observed c d (h\<lparr>soil_temperature_0cm := Some (None # xs)\<rparr>))) crop
     = deriveMetrics (Some (observed c d
         (h\<lparr>soil_temperature_0cm := Some (Some (nullish (temperature_2m c) 25 - 2) # xs)\<rparr>))) crop"
  by (rule deriveMetrics_cong [OF _ _ _ _ _ _ _ _ _ _ _ trend_of_cong])
    (simp_all add: temp_of_def humidity_of_def precip_of_def soilT_of_def soilM_of_def
      vpd_of_def uvMax_of_def et0_of_def precipWeek_of_def tMax_of_def tMin_of_def nullish_def
      idx_def)

lemma default_soil_moisture:
  "deriveMetrics (Some (observed c d (h\<lparr>soil_moisture_0_to_1cm := Some (None # xs)\<rparr>))) crop
     = deriveMetrics (Some (observed c d
         (h\<lparr>soil_moisture_0_to_1cm := Some (Some (1 / 4) # xs)\<rparr>))) crop"
  by (rule deriveMetrics_cong [OF _ _ _ _ _ _ _ _ _ _ _ trend_of_cong])
    (simp_all add: temp_of_def humidity_of_def precip_of_def soilT_of_def soilM_of_def
      vpd_of_def uvMax_of_def et0_of_def precipWeek_of_def tMax_of_def tMin_of_def nullish_def
      idx_def)

lemma default_soil_moisture_absent:
  "deriveMetrics (Some (observed c d (h\<lparr>soil_moisture_0_to_1cm := None\<rparr>))) crop
     = deriveMetrics (Some (observed c d
         (h\<lparr>soil_moisture_0_to_1cm := Some [Some (1 / 4)]\<rparr>))) crop"
  by (rule deriveMetrics_cong [OF _ _ _ _ _ _ _ _ _ _ _ trend_of_cong])
    (simp_all add: temp_of_def humidity_of_def precip_of_def soilT_of_def soilM_of_def
      vpd_of_def uvMax_of_def et0_of_def precipWeek_of_def tMax_of_def tMin_of_def nullish_def
      idx_def)

lemma default_vpd:
  "deriveMetrics (Some (observed c d (h\<lparr>vapour_pressure_deficit := Some (None # xs)\<rparr>))) crop
     = deriveMetrics (Some (observed c d
         (h\<lparr>vapour_pressure_deficit := Some (Some 1 # xs)\<rparr>))) crop"
  by (rule deriveMetrics_cong [OF _ _ _ _ _ _ _ _ _ _ _ trend_of_cong])
    (simp_all add: temp_of_def humidity_of_def precip_of_def soilT_of_def soilM_of_def
      vpd_of_def uvMax_of_def et0_of_def precipWeek_of_def tMax_of_def tMin_of_def nullish_def
      idx_def)

lemma default_vpd_absent:
  "deriveMetrics (Some (observed c d (h\<lparr>vapour_pressure_deficit := None\<rparr>))) crop
     = deriveMetrics (Some (observed c d
         (h\<lparr>vapour_pressure_deficit := Some [Some 1]\<rparr>))) crop"
  by (rule deriveMetrics_cong [OF _ _ _ _ _ _ _ _ _ _ _ trend_of_cong])
    (simp_all add: temp_of_def humidity_of_def precip_of_def soilT_of_def soilM_of_def
      vpd_of_def uvMax_of_def et0_of_def precipWeek_of_def tMax_of_def tMin_of_def nullish_def
      idx_def)

lemma default_et0:
  "deriveMetrics (Some (observed c (d\<lparr>et0_fao_evapotranspiration := Some (None # xs)\<rparr>) h)) crop
     = deriveMetrics (Some (observed c
         (d\<lparr>et0_fao_evapotranspiration := Some (Some 4 # xs)\<rparr>) h)) crop"
  by (rule deriveMetrics_cong [OF _ _ _ _ _ _ _ _ _ _ _ trend_of_cong])
    (simp_all add: temp_of_def humidity_of_def precip_of_def soilT_of_def soilM_of_def
      vpd_of_def uvMax_of_def et0_of_def precipWeek_of_def tMax_of_def tMin_of_def nullish_def
      idx_def)

lemma default_day0_minimum:
  "deriveMetrics (Some (observed c (d\<lparr>temperature_2m_min := Some (None # xs)\<rparr>) h)) crop
     = deriveMetrics (Some (observed c
         (d\<lparr>temperature_2m_min := Some (Some (nullish (temperature_2m c) 25 - 8) # xs)\<rparr>) h)) crop"
  by (rule deriveMetrics_cong [OF _ _ _ _ _ _ _ _ _ _ _ trend_of_cong])
    (simp_all add: temp_of_def humidity_of_def precip_of_def soilT_of_def soilM_of_def
      vpd_of_def uvMax_of_def et0_of_def precipWeek_of_def tMax_of_def tMin_of_def nullish_def
      idx_def)

lemma default_daily_precipitation:
  "deriveMetrics (Some (observed c (d\<lparr>precipitation_sum := Some (ys @ None # zs)\<rparr>) h)) crop
     = deriveMetrics (Some (observed c
         (d\<lparr>precipitation_sum := Some (ys @ Some 0 # zs)\<rparr>) h)) crop"
proof (rule deriveMetrics_cong [OF _ _ _ _ _ _ _ _ _ _ _ trend_of_cong])
  show "precipWeek_of (observed c (d\<lparr>precipitation_sum := Some (ys @ None # zs)\<rparr>) h)
      = precipWeek_of (observed c (d\<lparr>precipitation_sum := Some (ys @ Some 0 # zs)\<rparr>) h)"
    by (simp add: precipWeek_of_def nullish_def to_num_def)
  show "nullish (idx (precipitation_sum
            (dly (observed c (d\<lparr>precipitation_sum := Some (ys @ None # zs)\<rparr>) h))) i) 0
      = nullish (idx (precipitation_sum
            (dly (observed c (d\<lparr>precipitation_sum := Some (ys @ Some 0 # zs)\<rparr>) h))) i) 0"
    for i
    using idx_filled [of ys zs i 0] by (simp add: idx_at nullish_def)
qed (simp_all add: temp_of_def humidity_of_def precip_of_def soilT_of_def soilM_of_def
      vpd_of_def uvMax_of_def et0_of_def tMax_of_def tMin_of_def)

lemma default_daily_soil_moisture:
  "deriveMetrics (Some (observed c
       (d\<lparr>soil_moisture_0_to_10cm_mean := Some (ys @ None # zs)\<rparr>) h)) crop
     = deriveMetrics (Some (observed c
         (d\<lparr>soil_moisture_0_to_10cm_mean :=
              Some (ys @ Some (nullish (idx (soil_moisture_0_to_1cm h) 0) (1 / 4)) # zs)\<rparr>) h)) crop"
proof (rule deriveMetrics_cong [OF _ _ _ _ _ _ _ _ _ _ _ trend_of_cong])
  show "nullish (idx (soil_moisture_0_to_10cm_mean
            (dly (observed c (d\<lparr>soil_moisture_0_to_10cm_mean := Some (ys @ None # zs)\<rparr>) h))) i)
          (soilM_of (observed c (d\<lparr>soil_moisture_0_to_10cm_mean := Some (ys @ None # zs)\<rparr>) h))
      = nullish (idx (soil_moisture_0_to_10cm_mean
            (dly (observed c (d\<lparr>soil_moisture_0_to_10cm_mean :=
               Some (ys @ Some (nullish (idx (soil_moisture_0_to_1cm h) 0) (1 / 4)) # zs)\<rparr>) h))) i)
          (soilM_of (observed c (d\<lparr>soil_moisture_0_to_10cm_mean :=
               Some (ys @ Some (nullish (idx (soil_moisture_0_to_1cm h) 0) (1 / 4)) # zs)\<rparr>) h))"
    for i
    using idx_filled [of ys zs i "nullish (idx (soil_moisture_0_to_1cm h) 0) (1 / 4)"]
    by (simp add: idx_at soilM_of_def nullish_def)
qed (simp_all add: temp_of_def humidity_of_def precip_of_def soilT_of_def soilM_of_def
      vpd_of_def uvMax_of_def et0_of_def precipWeek_of_def tMax_of_def tMin_of_def)

lemma default_daily_uv:
  "deriveMetrics (Some (observed c (d\<lparr>uv_index_max := Some (ys @ None # zs)\<rparr>) h)) crop
     = deriveMetrics (Some (observed c
         (d\<lparr>uv_index_max :=
              Some (ys @ Some (nullish (idx (Some (ys @ None # zs)) 0) 5) # zs)\<rparr>) h)) crop"
proof -
  let ?u = "nullish (idx (Some (ys @ None # zs)) 0) 5"
  have u: "nullish (idx (Some (ys @ Some ?u # zs)) 0) 5 = ?u"
    by (cases ys) (simp_all add: idx_def nullish_def)
  have f: "nullish (idx (Some (ys @ None # zs)) i) ?u
         = nullish (idx (Some (ys @ Some ?u # zs)) i) ?u" for i
    using idx_filled [of ys zs i ?u] by (simp add: idx_at nullish_def)
  show ?thesis
  proof (rule deriveMetrics_cong [OF _ _ _ _ _ _ _ _ _ _ _ trend_of_cong])
    show "uvMax_of (observed c (d\<lparr>uv_index_max := Some (ys @ None # zs)\<rparr>) h)
        = uvMax_of (observed c (d\<lparr>uv_index_max := Some (ys @ Some ?u # zs)\<rparr>) h)"
      by (simp add: uvMax_of_def u)
    show "nullish (idx (uv_index_max
              (dly (observed c (d\<lparr>uv_index_max := Some (ys @ None # zs)\<rparr>) h))) i)
            (uvMax_of (observed c (d\<lparr>uv_index_max := Some (ys @ None # zs)\<rparr>) h))
        = nullish (idx (uv_index_max
              (dly (observed c (d\<lparr>uv_index_max := Some (ys @ Some ?u # zs)\<rparr>) h))) i)
            (uvMax_of (observed c (d\<lparr>uv_index_max := Some (ys @ Some ?u # zs)\<rparr>) h))"
      for i
      using f [of i] by (simp add: uvMax_of_def u)
  qed (simp_all add: temp_of_def humidity_of_def precip_of_def soilT_of_def soilM_of_def
        vpd_of_def et0_of_def precipWeek_of_def tMax_of_def tMin_of_def)
qed

lemma default_soil_temperature_absent:
  "deriveMetrics (Some (observed c d (h\<lparr>soil_temperature_0cm := None\<rparr>))) crop
     = deriveMetrics (Some (observed c d
         (h\<lparr>soil_temperature_0cm := Some [Some (nullish (temperature_2m c) 25 - 2)]\<rparr>))) crop"
  by (rule deriveMetrics_cong [OF _ _ _ _ _ _ _ _ _ _ _ trend_of_cong])
    (simp_all add: temp_of_def humidity_of_def precip_of_def soilT_of_def soilM_of_def
      vpd_of_def uvMax_of_def et0_of_def precipWeek_of_def tMax_of_def tMin_of_def nullish_def
      idx_def to_num_def rnd64_def fadd_def)

lemma default_et0_absent:
  "deriveMetrics (Some (observed c (d\<lparr>et0_fao_evapotranspiration := None\<rparr>) h)) crop
     = deriveMetrics (Some (observed c
         (d\<lparr>et0_fao_evapotranspiration := Some [Some 4]\<rparr>) h)) crop"
  by (rule deriveMetrics_cong [OF _ _ _ _ _ _ _ _ _ _ _ trend_of_cong])
    (simp_all add: temp_of_def humidity_of_def precip_of_def soilT_of_def soilM_of_def
      vpd_of_def uvMax_of_def et0_of_def precipWeek_of_def tMax_of_def tMin_of_def nullish_def
      idx_def to_num_def rnd64_def fadd_def)

lemma default_day0_minimum_absent:
  "deriveMetrics (Some (observed c (d\<lparr>temperature_2m_min := None\<rparr>) h)) crop
     = deriveMetrics (Some (observed c
         (d\<lparr>temperature_2m_min := Some [Some (nullish (temperature_2m c) 25 - 8)]\<rparr>) h)) crop"
  by (rule deriveMetrics_cong [OF _ _ _ _ _ _ _ _ _ _ _ trend_of_cong])
    (simp_all add: temp_of_def humidity_of_def precip_of_def soilT_of_def soilM_of_def
      vpd_of_def uvMax_of_def et0_of_def precipWeek_of_def tMax_of_def tMin_of_def nullish_def
      idx_def to_num_def rnd64_def fadd_def)

lemma default_daily_precipitation_absent:
  "deriveMetrics (Some (observed c (d\<lparr>precipitation_sum := None\<rparr>) h)) crop
     = deriveMetrics (Some (observed c (d\<lparr>precipitation_sum := Some [Some 0]\<rparr>) h)) crop"
  by (rule deriveMetrics_cong [OF _ _ _ _ _ _ _ _ _ _ _ trend_of_cong])
    (simp_all add: temp_of_def humidity_of_def precip_of_def soilT_of_def soilM_of_def
      vpd_of_def uvMax_of_def et0_of_def precipWeek_of_def tMax_of_def tMin_of_def nullish_def
      idx_def to_num_def rnd64_def fadd_def)

lemma default_daily_soil_moisture_absent:
  "deriveMetrics (Some (observed c (d\<lparr>soil_moisture_0_to_10cm_mean := None\<rparr>) h)) crop
     = deriveMetrics (Some (observed c
         (d\<lparr>soil_moisture_0_to_10cm_mean :=
              Some [Some (nullish (idx (soil_moisture_0_to_1cm h) 0) (1 / 4))]\<rparr>) h)) crop"
  by (rule deriveMetrics_cong [OF _ _ _ _ _ _ _ _ _ _ _ trend_of_cong])
    (simp_all add: temp_of_def humidity_of_def precip_of_def soilT_of_def soilM_of_def
      vpd_of_def uvMax_of_def et0_of_def precipWeek_of_def tMax_of_def tMin_of_def nullish_def
      idx_def to_num_def rnd64_def fadd_def)

lemma default_daily_uv_absent:
  "deriveMetrics (Some (observed c (d\<lparr>uv_index_max := None\<rparr>) h)) crop
     = deriveMetrics (Some (observed c (d\<lparr>uv_index_max := Some [Some 5]\<rparr>) h)) crop"
  by (rule deriveMetrics_cong [OF _ _ _ _ _ _ _ _ _ _ _ trend_of_cong])
    (simp_all add: temp_of_def humidity_of_def precip_of_def soilT_of_def soilM_of_def
      vpd_of_def uvMax_of_def et0_of_def precipWeek_of_def tMax_of_def tMin_of_def nullish_def
      idx_def to_num_def rnd64_def fadd_def)

text \<open>
  C3, as amended. The function has no error kind of its own and does not check the
  shape of the forecast. With no \<^verbatim>\<open>raw\<close> argument it throws a TypeError. On every
  \<^verbatim>\<open>raw\<close> whose fields, where present, are numbers and arrays of numbers or nulls, of
  any length, it returns an assessment, with one trend entry per element of the daily
  maximum array, and seven when that array is absent; fields of other JavaScript types,
  which can make it throw a TypeError as well, are left out of this statement. A reading
  that is absent (the field or its array is missing) or null (its array entry is null),
  other than an entry of the daily maximum array, never reaches a penalty: the
  assessment is the one obtained with its default in its place, which is
  25 for the current temperature, 50 for the humidity, 0 for the current precipitation,
  the temperature minus 2 for the soil temperature, 0.25 for the soil moisture, 1.0 for
  the VPD, 4 for today's reference evapotranspiration, the temperature minus 8 for the
  day-0 minimum, 0 for a daily precipitation, the current soil moisture for a daily
  soil moisture, and the day-0 UV index (5 if that is null too) for a daily UV index.
\<close>

theorem derive_total_with_defaults:
  "deriveMetrics None crop = Inl TypeError
   \<and> (\<exists>m. deriveMetrics (Some r) crop = Inr m
         \<and> length (trend m) =
             (case temperature_2m_max (dly r) of None \<Rightarrow> 7 | Some xs \<Rightarrow> length xs))
   \<and> deriveMetrics (Some (observed (c\<lparr>temperature_2m := None\<rparr>) d h)) crop
     = deriveMetrics (Some (observed (c\<lparr>temperature_2m := Some 25\<rparr>) d h)) crop
   \<and> deriveMetrics (Some (observed (c\<lparr>relative_humidity_2m := None\<rparr>) d h)) crop
     = deriveMetrics (Some (observed (c\<lparr>relative_humidity_2m := Some 50\<rparr>) d h)) crop
   \<and> deriveMetrics (Some (observed (c\<lparr>precipitation := None\<rparr>) d h)) crop
     = deriveMetrics (Some (observed (c\<lparr>precipitation := Some 0\<rparr>) d h)) crop
   \<and> deriveMetrics (Some (observed c d (h\<lparr>soil_temperature_0cm := Some (None # xs)\<rparr>))) crop
     = deriveMetrics (Some (observed c d
         (h\<lparr>soil_temperature_0cm := Some (Some (nullish (temperature_2m c) 25 - 2) # xs)\<rparr>))) crop
   \<and> deriveMetrics (Some (observed c d (h\<lparr>soil_moisture_0_to_1cm := Some (None # xs)\<rparr>))) crop
     = deriveMetrics (Some (observed c d
         (h\<lparr>soil_moisture_0_to_1cm := Some (Some (1 / 4) # xs)\<rparr>))) crop
   \<and> deriveMetrics (Some (observed c d (h\<lparr>soil_moisture_0_to_1cm := None\<rparr>))) crop
     = deriveMetrics (Some (observed c d
         (h\<lparr>soil_moisture_0_to_1cm := Some [Some (1 / 4)]\<rparr>))) crop
   \<and> deriveMetrics (Some (observed c d (h\<lparr>vapour_pressure_deficit := Some (None # xs)\<rparr>))) crop
     = deriveMetrics (Some (observed c d
         (h\<lparr>vapour_pressure_deficit := Some (Some 1 # xs)\<rparr>))) crop
   \<and> deriveMetrics (Some (observed c d (h\<lparr>vapour_pressure_deficit := None\<rparr>))) crop
     = deriveMetrics (Some (observed c d
         (h\<lparr>vapour_pressure_deficit := Some [Some 1]\<rparr>))) crop
   \<and> deriveMetrics (Some (observed c (d\<lparr>et0_fao_evapotranspiration := Some (None # xs)\<rparr>) h)) crop
     = deriveMetrics (Some (observed c
         (d\<lparr>et0_fao_evapotranspiration := Some (Some 4 # xs)\<rparr>) h)) crop
   \<and> deriveMetrics (Some (observed c (d\<lparr>temperature_2m_min := Some (None # xs)\<rparr>) h)) crop
     = deriveMetrics (Some (observed c
         (d\<lparr>temperature_2m_min := Some (Some (nullish (temperature_2m c) 25 - 8) # xs)\<rparr>) h)) crop
   \<and> deriveMetrics (Some (observed c (d\<lparr>precipitation_sum := Some (ys @ None # zs)\<rparr>) h)) crop
     = deriveMetrics (Some (observed c
         (d\<lparr>precipitation_sum := Some (ys @ Some 0 # zs)\<rparr>) h)) crop
   \<and> deriveMetrics (Some (observed c
       (d\<lparr>soil_moisture_0_to_10cm_mean := Some (ys @ None # zs)\<rparr>) h)) crop
     = deriveMetrics (Some (observed c
         (d\<lparr>soil_moisture_0_to_10cm_mean :=
              Some (ys @ Some (nullish (idx (soil_moisture_0_to_1cm h) 0) (1 / 4)) # zs)\<rparr>) h)) crop
   \<and> deriveMetrics (Some (observed c (d\<lparr>uv_index_max := Some (ys @ None # zs)\<rparr>) h)) crop
     = deriveMetrics (Some (observed c
         (d\<lparr>uv_index_max :=
              Some (ys @ Some (nullish (idx (Some (ys @ None # zs)) 0) 5) # zs)\<rparr>) h)) crop
   \<and> deriveMetrics (Some (observed c d (h\<lparr>soil_temperature_0cm := None\<rparr>))) crop
     = deriveMetrics (Some (observed c d
         (h\<lparr>soil_temperature_0cm := Some [Some (nullish (temperature_2m c) 25 - 2)]\<rparr>))) crop
   \<and> deriveMetrics (Some (observed c (d\<lparr>et0_fao_evapotranspiration := None\<rparr>) h)) crop
     = deriveMetrics (Some (observed c
         (d\<lparr>et0_fao_evapotranspiration := Some [Some 4]\<rparr>) h)) crop
   \<and> deriveMetrics (Some (observed c (d\<lparr>temperature_2m_min := None\<rparr>) h)) crop
     = deriveMetrics (Some (observed c
         (d\<lparr>temperature_2m_min := Some [Some (nullish (temperature_2m c) 25 - 8)]\<rparr>) h)) crop
   \<and> deriveMetrics (Some (observed c (d\<lparr>precipitation_sum := None\<rparr>) h)) crop
     = deriveMetrics (Some (observed c (d\<lparr>precipitation_sum := Some [Some 0]\<rparr>) h)) crop
   \<and> deriveMetrics (Some (observed c (d\<lparr>soil_moisture_0_to_10cm_mean := None\<rparr>) h)) crop
     = deriveMetrics (Some (observed c
         (d\<lparr>soil_moisture_0_to_10cm_mean :=
              Some [Some (nullish (idx (soil_moisture_0_to_1cm h) 0) (1 / 4))]\<rparr>) h)) crop
   \<and> deriveMetrics (Some (observed c (d\<lparr>uv_index_max := None\<rparr>) h)) crop
     = deriveMetrics (Some (observed c (d\<lparr>uv_index_max := Some [Some 5]\<rparr>) h)) crop"
proof -
  have t: "deriveMetrics None crop = Inl TypeError"
    by (simp add: deriveMetrics_def)
  have s: "\<exists>m. deriveMetrics (Some r) crop = Inr m
         \<and> length (trend m) =
             (case temperature_2m_max (dly r) of None \<Rightarrow> 7 | Some xs \<Rightarrow> length xs)"
    by (simp add: deriveMetrics_def length_trend)
  show ?thesis
    by (intro conjI t s default_temperature default_humidity default_precipitation
        default_soil_temperature default_soil_moisture default_soil_moisture_absent
        default_vpd default_vpd_absent default_et0 default_day0_minimum
        default_daily_precipitation default_daily_soil_moisture default_daily_uv
        default_soil_temperature_absent default_et0_absent default_day0_minimum_absent
        default_daily_precipitation_absent default_daily_soil_moisture_absent
        default_daily_uv_absent)
qed

text \<open>
  C3, as first stated, has a forecast that is not seven days long rejected, and keeps
  null out of every penalty branch. A forecast of three days is accepted, and the trend
  then has three entries; and a null day-0 maximum is scored as 0 degrees, which costs
  the day 36 points, while the day-0 alert on the same input falls back to the current
  temperature.
\<close>

theorem unvalidated_forecast_counterexample:
  "map_sum id (length \<circ> trend) (deriveMetrics (Some obs_short) '''') = Inr 3
   \<and> map_sum id (tr_h \<circ> hd \<circ> trend) (deriveMetrics (Some obs_null_max) '''') = Inr 64
   \<and> map_sum id tMax (deriveMetrics (Some obs_null_max) '''') = Inr 25"
proof -
  have a: "map_sum id (length \<circ> trend) (deriveMetrics (Some obs_short) '''') = Inr 3"
    by (simp add: deriveMetrics_def length_trend obs_short_def dly_def nullish_def)
  have "tr_h (hd (trend_of obs_null_max)) = 64"
    by code_simp
  then have b:
    "map_sum id (tr_h \<circ> hd \<circ> trend) (deriveMetrics (Some obs_null_max) '''') = Inr 64"
    by (simp add: deriveMetrics_def)
  have "tMax_of obs_null_max = 25"
    by (simp add: tMax_of_def obs_null_max_def reading_defs)
  then have c: "map_sum id tMax (deriveMetrics (Some obs_null_max) '''') = Inr 25"
    by (simp add: deriveMetrics_def)
  from a b c show ?thesis by blast
qed

section \<open>Irrigation\<close>

text \<open>
  C4. The deficit is the larger of 0 and seven times today's reference
  evapotranspiration minus the sum of the daily precipitation entries, each operation
  as the program performs it, in doubles. The urgency is URGENT, with a message of
  round(deficit + 15) mm, when soil moisture is below 0.10 or the deficit exceeds 30;
  otherwise SOON, with round(deficit + 8) mm, when soil moisture is below 0.20 or the
  deficit exceeds 15; otherwise OK, with the next irrigation in
  round(7 - weekly precipitation / 3) days. With soil moisture 0.05 and a computed
  difference of 40 the urgency is URGENT and the message names 55 mm.
\<close>

theorem irrigation_rule:
  "\<exists>m. deriveMetrics (Some r) crop = Inr m
     \<and> deficit_of r =
          max 0 (fsub (fmul (rnd64 (et0_of r)) 7)
                   (foldl (\<lambda>a b. fadd a (rnd64 (to_num b))) 0
                      (nullish (precipitation_sum (dly r)) [])))
     \<and> (if rnd64 (soilM_of r) < rnd64 (1 / 10) \<or> deficit_of r > 30
          then irrigUrgency m = ''URGENT''
               \<and> irrigRec m = ApplyWithin24h (js_round (fadd (deficit_of r) 15))
        else if rnd64 (soilM_of r) < rnd64 (2 / 10) \<or> deficit_of r > 15
          then irrigUrgency m = ''SOON''
               \<and> irrigRec m = ScheduleWithin3Days (js_round (fadd (deficit_of r) 8))
        else irrigUrgency m = ''OK''
             \<and> irrigRec m = NextIrrigationIn (js_round (fsub 7 (fdiv (precipWeek_of r) 3))))
     \<and> (soilM_of r = 5 / 100 \<and> fsub (fmul (rnd64 (et0_of r)) 7) (precipWeek_of r) = 40
          \<longrightarrow> irrigUrgency m = ''URGENT'' \<and> irrigRec m = ApplyWithin24h 55)"
proof -
  have scenario: "irrigUrgency_of r = ''URGENT'' \<and> irrigRec_of r = ApplyWithin24h 55"
    if "fsub (fmul (rnd64 (et0_of r)) 7) (precipWeek_of r) = 40"
  proof -
    from that have "deficit_of r = 40"
      by (simp add: deficit_of_def)
    then show ?thesis
      by (simp add: irrigUrgency_of_def irrigRec_of_def fadd_40_15 js_round_def)
  qed
  show ?thesis
    using scenario
    by (simp add: deriveMetrics_def irrigUrgency_of_def irrigRec_of_def deficit_of_def
        precipWeek_of_def)
qed

theorem irrigation_rule_witness:
  "soilM_of obs_parched = 5 / 100
   \<and> fsub (fmul (rnd64 (et0_of obs_parched)) 7) (precipWeek_of obs_parched) = 40
   \<and> map_sum id irrigUrgency (deriveMetrics (Some obs_parched) '''') = Inr ''URGENT''
   \<and> map_sum id irrigRec (deriveMetrics (Some obs_parched) '''') = Inr (ApplyWithin24h 55)"
proof -
  have a: "soilM_of obs_parched = 5 / 100"
    by (simp add: obs_parched_def reading_defs)
  have e: "et0_of obs_parched = 10"
    by (simp add: et0_of_def obs_parched_def dly_def nullish_def idx_def week_def)
  have p: "precipWeek_of obs_parched = 30"
    by (simp add: precipWeek_of_def obs_parched_def dly_def nullish_def to_num_def rnd64_eval)
  have b: "fsub (fmul (rnd64 (et0_of obs_parched)) 7) (precipWeek_of obs_parched) = 40"
    by (simp add: e p) (simp add: rnd64_eval)
  from irrigation_rule [of obs_parched "''''"] a b show ?thesis by auto
qed

section \<open>Temperature alert\<close>

text \<open>
  C5. The alert level is decided by an ordered chain over the day-0 maximum and minimum
  in which the first condition that holds wins: maximum above 42 gives CRITICAL, else
  maximum above 36 gives HIGH, else minimum below 4 gives HIGH, else minimum below 10
  gives MODERATE, else OK. A day-0 maximum of 43 gives CRITICAL whatever the other
  fields are.
\<close>

theorem temperature_alert_chain:
  "\<exists>m. deriveMetrics (Some r) crop = Inr m
     \<and> tMax m = nullish (idx (temperature_2m_max (dly r)) 0) (temp_of r)
     \<and> tMin m = nullish (idx (temperature_2m_min (dly r)) 0) (temp_of r - 8)
     \<and> tempAlertLevel m =
          (if tMax m > 42 then ''CRITICAL''
           else if tMax m > 36 then ''HIGH''
           else if tMin m < 4 then ''HIGH''
           else if tMin m < 10 then ''MODERATE''
           else ''OK'')
     \<and> (idx (temperature_2m_max (dly r)) 0 = Some 43 \<longrightarrow> tempAlertLevel m = ''CRITICAL'')"
  by (simp add: deriveMetrics_def tempAlertLevel_of_def tMax_of_def tMin_of_def nullish_def)

theorem temperature_alert_chain_witness:
  "idx (temperature_2m_max (dly obs_heatwave)) 0 = Some 43
   \<and> idx (temperature_2m_min (dly obs_heatwave)) 0 = Some 2
   \<and> map_sum id tempAlertLevel (deriveMetrics (Some obs_heatwave) '''') = Inr ''CRITICAL''"
proof -
  have a: "idx (temperature_2m_max (dly obs_heatwave)) 0 = Some 43"
    and b: "idx (temperature_2m_min (dly obs_heatwave)) 0 = Some 2"
    by (simp_all add: obs_heatwave_def dly_def idx_def nullish_def week_def)
  from temperature_alert_chain [of obs_heatwave "''''"] a b show ?thesis by auto
qed

section \<open>Nutrient alerts\<close>

text \<open>
  C6. The alert list holds the adequate message exactly when the nitrogen, phosphorus
  and potassium scores are all at least 60, and then holds nothing else; otherwise it
  holds, in this order, one advisory for each score below 60, naming 100 minus that
  score, and no adequate message.
\<close>

theorem nutrient_alerts_rule:
  "\<exists>m. deriveMetrics (Some r) crop = Inr m
     \<and> (NutrientsAdequate \<in> set (nutrientAlerts m)
          \<longleftrightarrow> nScore m \<ge> 60 \<and> pScore m \<ge> 60 \<and> kScore m \<ge> 60)
     \<and> nutrientAlerts m =
         (if nScore m \<ge> 60 \<and> pScore m \<ge> 60 \<and> kScore m \<ge> 60 then [NutrientsAdequate]
          else (if nScore m < 60 then [ApplyUrea (100 - nScore m)] else [])
             @ (if pScore m < 60 then [ApplyDAP (100 - pScore m)] else [])
             @ (if kScore m < 60 then [ApplyMOP (100 - kScore m)] else []))"
  by (simp add: deriveMetrics_def nutrientAlerts_of_def Let_def)

section \<open>Soil health\<close>

text \<open>
  C7. The reported composite soil score is the rounded mean of the six reported
  subscores, and the status is EXCELLENT from 80, GOOD from 60, FAIR from 40 and POOR
  below.
\<close>

theorem soil_composite_and_status:
  "\<exists>m. deriveMetrics (Some r) crop = Inr m
     \<and> soilHealth m =
         js_round ((mScore m + stScore m + aerationScore m + organicScore m
                    + microbialScore m + structureScore m) / 6)
     \<and> soilStatus m =
         (if soilHealth m \<ge> 80 then ''EXCELLENT'' else if soilHealth m \<ge> 60 then ''GOOD''
          else if soilHealth m \<ge> 40 then ''FAIR'' else ''POOR'')"
  by (simp add: deriveMetrics_def soilHealth_of_def soilStatus_of_def)

section \<open>Score ranges\<close>

text \<open>
  C8. In every assessment the three nutrient scores, the six soil subscores and the
  health score of every trend entry lie between 0 and 100; for a valid observation the
  trend has seven entries.
\<close>

theorem reported_scores_in_range:
  "\<exists>m. deriveMetrics (Some r) crop = Inr m
     \<and> 0 \<le> nScore m \<and> nScore m \<le> 100
     \<and> 0 \<le> pScore m \<and> pScore m \<le> 100
     \<and> 0 \<le> kScore m \<and> kScore m \<le> 100
     \<and> 0 \<le> mScore m \<and> mScore m \<le> 100
     \<and> 0 \<le> stScore m \<and> stScore m \<le> 100
     \<and> 0 \<le> aerationScore m \<and> aerationScore m \<le> 100
     \<and> 0 \<le> organicScore m \<and> organicScore m \<le> 100
     \<and> 0 \<le> microbialScore m \<and> microbialScore m \<le> 100
     \<and> 0 \<le> structureScore m \<and> structureScore m \<le> 100
     \<and> (\<forall>e \<in> set (trend m). 0 \<le> tr_h e \<and> tr_h e \<le> 100)
     \<and> (valid_observation r \<longrightarrow> length (trend m) = 7)"
proof -
  have len: "valid_observation r \<Longrightarrow> length (trend_of r) = 7"
    by (auto simp: length_trend valid_observation_def week_of_def dly_def nullish_def
        split: option.splits)
  show ?thesis
    using nScore_range [of r] pScore_range [of r] kScore_range [of r] mScore_range [of r]
      stScore_range [of r] aerationScore_range [of r] organicScore_range [of r]
      microbialScore_range [of r] structureScore_range [of r] trend_of_range [of _ r] len
    by (simp add: deriveMetrics_def)
qed

theorem reported_scores_in_range_witness:
  "valid_observation obs_dry_air
   \<and> map_sum id (length \<circ> trend) (deriveMetrics (Some obs_dry_air) '''') = Inr 7
   \<and> map_sum id (\<lambda>m. 0 \<le> tr_h (hd (trend m)) \<and> tr_h (hd (trend m)) \<le> 100)
        (deriveMetrics (Some obs_dry_air) '''') = Inr True"
proof -
  have v: "valid_observation obs_dry_air"
    by (simp add: valid_defs obs_dry_air_def)
  from reported_scores_in_range [of obs_dry_air "''''"] v
  obtain m where m: "deriveMetrics (Some obs_dry_air) '''' = Inr m"
    and t: "\<forall>e \<in> set (trend m). 0 \<le> tr_h e \<and> tr_h e \<le> 100"
    and l: "length (trend m) = 7"
    by blast
  from l have "hd (trend m) \<in> set (trend m)"
    by (cases "trend m") simp_all
  with t have "0 \<le> tr_h (hd (trend m)) \<and> tr_h (hd (trend m)) \<le> 100"
    by blast
  with v m l show ?thesis by simp
qed

section \<open>Trend against health score\<close>

lemma dry_air_valid: "valid_observation obs_dry_air"
  by (simp add: valid_defs obs_dry_air_def)

lemma dry_air_health: "health_of obs_dry_air = 85"
  by (simp add: health_of_def penalty_defs js_round_def obs_dry_air_def reading_defs week_def)

lemma dry_air_trend:
  "trend_of obs_dry_air \<noteq> [] \<and> tr_day (hd (trend_of obs_dry_air)) = 0
   \<and> tr_h (hd (trend_of obs_dry_air)) = 100"
  by code_simp

text \<open>
  C9. The day-0 entry of the trend and the health score are computed independently and
  need not agree: there is a valid observation whose day-0 trend score differs from its
  health score. In dry air the health score loses the 15 points of the humidity penalty,
  which the trend does not have.
\<close>

theorem trend_day0_differs_from_health:
  "\<exists>r m. valid_observation r \<and> deriveMetrics (Some r) crop = Inr m
     \<and> trend m \<noteq> [] \<and> tr_day (hd (trend m)) = 0 \<and> tr_h (hd (trend m)) \<noteq> health m"
proof (intro exI conjI)
  show "valid_observation obs_dry_air"
    by (rule dry_air_valid)
  show "deriveMetrics (Some obs_dry_air) crop = Inr (projr (deriveMetrics (Some obs_dry_air) crop))"
    by (simp add: deriveMetrics_def)
  show "trend (projr (deriveMetrics (Some obs_dry_air) crop)) \<noteq> []"
    using dry_air_trend by (simp add: deriveMetrics_def)
  show "tr_day (hd (trend (projr (deriveMetrics (Some obs_dry_air) crop)))) = 0"
    using dry_air_trend by (simp add: deriveMetrics_def)
  show "tr_h (hd (trend (projr (deriveMetrics (Some obs_dry_air) crop))))
          \<noteq> health (projr (deriveMetrics (Some obs_dry_air) crop))"
    using dry_air_trend dry_air_health by (simp add: deriveMetrics_def)
qed

section \<open>Irrigation interval in the OK branch\<close>

lemma rainy_valid: "valid_observation obs_rainy"
  by (simp add: valid_defs obs_rainy_def)

lemma rainy_precipWeek: "precipWeek_of obs_rainy = 30"
  by (simp add: precipWeek_of_def obs_rainy_def dly_def nullish_def to_num_def rnd64_eval)

lemma rainy_deficit: "deficit_of obs_rainy = 0"
proof -
  have "et0_of obs_rainy = 4"
    by (simp add: et0_of_def obs_rainy_def dly_def nullish_def idx_def week_def)
  then show ?thesis
    by (simp add: deficit_of_def rainy_precipWeek) (simp add: rnd64_eval)
qed

lemma rainy_irrigation:
  "soilM_of obs_rainy = 1 / 4" "precipWeek_of obs_rainy = 30" "deficit_of obs_rainy = 0"
  "irrigUrgency_of obs_rainy = ''OK''" "irrigRec_of obs_rainy = NextIrrigationIn (- 3)"
proof -
  show m: "soilM_of obs_rainy = 1 / 4"
    by (simp add: obs_rainy_def reading_defs)
  show "precipWeek_of obs_rainy = 30"
    by (rule rainy_precipWeek)
  show "deficit_of obs_rainy = 0"
    by (rule rainy_deficit)
  have d: "fsub 7 (fdiv 30 3) = - 3"
    by (simp add: rnd64_eval)
  show "irrigUrgency_of obs_rainy = ''OK''"
    by (simp add: irrigUrgency_of_def rainy_deficit m rnd64_quarter rnd64_tenth rnd64_fifth)
  show "irrigRec_of obs_rainy = NextIrrigationIn (- 3)"
    by (simp add: irrigRec_of_def rainy_deficit rainy_precipWeek m rnd64_quarter rnd64_tenth
        rnd64_fifth d js_round_def)
qed

text \<open>
  C10. The day count of the OK message has no floor at 1: there is a valid observation
  with urgency OK (soil moisture at least 0.20 and deficit at most 15) and more than
  19.5 mm of rain over the week for which the number of days in the message is zero or
  negative. With 30 mm of rain the message says minus 3 days.
\<close>

theorem ok_irrigation_days_not_positive:
  "\<exists>r m n. valid_observation r \<and> deriveMetrics (Some r) crop = Inr m
     \<and> soilM_of r \<ge> 2 / 10 \<and> deficit_of r \<le> 15 \<and> precipWeek_of r > 39 / 2
     \<and> irrigUrgency m = ''OK'' \<and> irrigRec m = NextIrrigationIn n \<and> n \<le> 0"
proof -
  have "deriveMetrics (Some obs_rainy) crop = Inr (projr (deriveMetrics (Some obs_rainy) crop))"
    by (simp add: deriveMetrics_def)
  moreover have "irrigUrgency (projr (deriveMetrics (Some obs_rainy) crop)) = ''OK''"
    using rainy_irrigation by (simp add: deriveMetrics_def)
  moreover have
    "irrigRec (projr (deriveMetrics (Some obs_rainy) crop)) = NextIrrigationIn (- 3)"
    using rainy_irrigation by (simp add: deriveMetrics_def)
  moreover have "soilM_of obs_rainy \<ge> 2 / 10" "deficit_of obs_rainy \<le> 15"
    "precipWeek_of obs_rainy > 39 / 2" "(- 3 :: num) \<le> 0"
    by (simp_all add: rainy_irrigation)
  ultimately show ?thesis
    using rainy_valid by blast
qed

end
